theory Spec2Isabelle
  imports Main
begin

section \<open>Data model\<close>

text \<open>
  The script \<^verbatim>\<open>process.py\<close> moves a dataset (a Python list of dicts) from a
  CSV or JSON file into a CSV or JSON file, optionally dropping falsy entries and
  stamping every record.

  Python strings are modelled as HOL strings: a character is a code point below 256.
  A dict is an association list in insertion order; keys are \<open>Some s\<close> for the string
  \<open>s\<close> and \<open>None\<close> for Python's \<^verbatim>\<open>None\<close>, which \<^verbatim>\<open>csv.DictReader\<close> uses as the key of
  surplus cells. Values are the values the two readers can produce, without
  floating-point numbers.
\<close>

type_synonym pykey = "string option"

datatype pyvalue =
    PyNone
  | PyBool bool
  | PyInt int
  | PyStr string
  | PyList "pyvalue list"
  | PyDict "(pykey \<times> pyvalue) list"

type_synonym pydict = "(pykey \<times> pyvalue) list"
type_synonym dataset = "pydict list"

text \<open>Python's truth value of an object, as \<^verbatim>\<open>if v\<close> tests it.\<close>

fun truthy :: "pyvalue \<Rightarrow> bool" where
  "truthy PyNone = False"
| "truthy (PyBool b) = b"
| "truthy (PyInt i) = (i \<noteq> 0)"
| "truthy (PyStr s) = (s \<noteq> [])"
| "truthy (PyList vs) = (vs \<noteq> [])"
| "truthy (PyDict kvs) = (kvs \<noteq> [])"

text \<open>
  \<^verbatim>\<open>d[k] = v\<close>: an existing key keeps its position and takes the new value, a new key
  goes to the end.
\<close>

fun dict_set :: "pykey \<Rightarrow> pyvalue \<Rightarrow> pydict \<Rightarrow> pydict" where
  "dict_set k v [] = [(k, v)]"
| "dict_set k v ((k', v') # d) =
     (if k' = k then (k, v) # d else (k', v') # dict_set k v d)"

text \<open>\<^verbatim>\<open>d.get(k)\<close> is \<open>map_of d k\<close>; \<^verbatim>\<open>d.keys()\<close> is \<open>map fst d\<close>.\<close>

definition keys :: "pydict \<Rightarrow> pykey list" where
  "keys d = map fst d"

text \<open>The invariant of a Python dict: no key occurs twice.\<close>

definition wf_dict :: "pydict \<Rightarrow> bool" where
  "wf_dict d = distinct (keys d)"

section \<open>The environment\<close>

text \<open>
  The world the script runs in: the files it can read (path to text), the paths it may
  open for writing, the error stream, the log of every \<^verbatim>\<open>open\<close> it attempts, and the
  clock, a sequence of readings of which \<open>ticks\<close> have been taken.
\<close>

datatype error = OSError | CsvError | ValueError | JSONDecodeError

datatype file_op = OpenRead string | OpenWrite string

text \<open>
  The four lines the script prints to \<^verbatim>\<open>sys.stderr\<close>: unsupported input type with the
  extension, read failure with the exception, unsupported output type with the
  extension, write failure with the exception.
\<close>

datatype message =
    UnsupportedInput string
  | ReadFailed error
  | UnsupportedOutput string
  | WriteFailed error

record world =
  files :: "string \<rightharpoonup> string"
  writable :: "string \<Rightarrow> bool"
  stderr :: "message list"
  io_log :: "file_op list"
  clock :: "nat \<Rightarrow> string"
  ticks :: nat

text \<open>\<^verbatim>\<open>datetime.now().isoformat()\<close>: take the next reading of the clock.\<close>

definition now_isoformat :: "world \<Rightarrow> string \<times> world" where
  "now_isoformat w = (clock w (ticks w), w\<lparr>ticks := Suc (ticks w)\<rparr>)"

section \<open>The transformer\<close>

text \<open>The dict comprehension \<^verbatim>\<open>{k: v for k, v in item.items() if v}\<close>.\<close>

definition filter_item :: "pydict \<Rightarrow> pydict" where
  "filter_item item = [(k, v) \<leftarrow> item. truthy v]"

text \<open>The loop \<^verbatim>\<open>for item in result: item['timestamp'] = timestamp\<close>.\<close>

fun stamp_items :: "string \<Rightarrow> dataset \<Rightarrow> dataset" where
  "stamp_items timestamp [] = []"
| "stamp_items timestamp (item # rest) =
     dict_set (Some ''timestamp'') (PyStr timestamp) item # stamp_items timestamp rest"

definition process_data :: "dataset \<Rightarrow> string list \<Rightarrow> world \<Rightarrow> dataset \<times> world" where
  "process_data data operations w =
     (let result = data;
          result = (if ''filter_empty'' \<in> set operations
                    then [filter_item item. item \<leftarrow> result] else result)
      in if ''add_timestamp'' \<in> set operations
         then (let (timestamp, w') = now_isoformat w
               in (stamp_items timestamp result, w'))
         else (result, w))"

text \<open>
  The namespace \<^verbatim>\<open>argparse\<close> hands to \<^verbatim>\<open>main\<close>: the paths \<^verbatim>\<open>args.input\<close> and
  \<^verbatim>\<open>args.output\<close> and two \<^verbatim>\<open>store_true\<close> flags. The order of the flags on the
  command line is not part of it.
\<close>

record args =
  input_path :: string
  output_path :: string
  filter_empty :: bool
  add_timestamp :: bool

text \<open>The list \<^verbatim>\<open>operations\<close> that \<^verbatim>\<open>main\<close> builds from the flags.\<close>

definition operations_of :: "args \<Rightarrow> string list" where
  "operations_of a =
     (let operations = [];
          operations = (if filter_empty a then operations @ [''filter_empty''] else operations);
          operations = (if add_timestamp a then operations @ [''add_timestamp''] else operations)
      in operations)"



section \<open>Text files\<close>

abbreviation LF :: char where "LF \<equiv> CHR 0x0A"
abbreviation CR :: char where "CR \<equiv> CHR 0x0D"

text \<open>
  \<^verbatim>\<open>open(path, 'r')\<close>: the attempt is logged; a path that holds no file raises
  \<^verbatim>\<open>OSError\<close>. A file holds text: the encoding is not modelled.
\<close>

definition open_read :: "string \<Rightarrow> world \<Rightarrow> (error + string) \<times> world" where
  "open_read file_path w =
     (let w' = w\<lparr>io_log := io_log w @ [OpenRead file_path]\<rparr>
      in case files w file_path of
           None \<Rightarrow> (Inl OSError, w')
         | Some content \<Rightarrow> (Inr content, w'))"

text \<open>
  \<^verbatim>\<open>open(path, 'w')\<close>: the attempt is logged; a path that cannot be written raises
  \<^verbatim>\<open>OSError\<close>, otherwise the file is created or truncated.
\<close>

definition open_write :: "string \<Rightarrow> world \<Rightarrow> error option \<times> world" where
  "open_write file_path w =
     (let w' = w\<lparr>io_log := io_log w @ [OpenWrite file_path]\<rparr>
      in if writable w file_path
         then (None, w'\<lparr>files := (files w')(file_path \<mapsto> [])\<rparr>)
         else (Some OSError, w'))"

text \<open>The file object's \<^verbatim>\<open>write\<close>: the text goes to the end of the file.\<close>

definition file_write :: "string \<Rightarrow> string \<Rightarrow> world \<Rightarrow> world" where
  "file_write file_path text w =
     w\<lparr>files := (files w)(file_path \<mapsto> (case files w file_path of
                                            None \<Rightarrow> text
                                          | Some content \<Rightarrow> content @ text))\<rparr>"

text \<open>
  Reading in text mode with the default \<^verbatim>\<open>newline=None\<close>: \<^verbatim>\<open>\r\n\<close> and a lone
  \<^verbatim>\<open>\r\<close> both arrive as \<^verbatim>\<open>\n\<close>.
\<close>

fun universal_newlines :: "string \<Rightarrow> string" where
  "universal_newlines [] = []"
| "universal_newlines [c] = (if c = CR then [LF] else [c])"
| "universal_newlines (c # d # cs) =
     (if c = CR \<and> d = LF then LF # universal_newlines cs
      else if c = CR then LF # universal_newlines (d # cs)
      else c # universal_newlines (d # cs))"

text \<open>
  Iterating over a text file: the lines, each with its closing \<^verbatim>\<open>\n\<close>; the last one
  has none when the text does not end with it.
\<close>

fun file_lines :: "string \<Rightarrow> string list" where
  "file_lines [] = []"
| "file_lines (c # cs) =
     (if c = LF then [c] # file_lines cs
      else (case file_lines cs of
              [] \<Rightarrow> [[c]]
            | line # lines \<Rightarrow> (c # line) # lines))"

section \<open>The CSV reader\<close>

text \<open>
  \<^verbatim>\<open>csv.reader\<close> with the default dialect \<^verbatim>\<open>excel\<close>: delimiter comma, quote character
  double quote, double quotes doubled, no escape character, not strict. The states
  that only an escape character reaches are left out. A field longer than the field
  size limit raises \<^verbatim>\<open>csv.Error\<close>. The end-of-line mark is no character of the
  text, as in CPython 3.11 and later.
\<close>

definition delimiter :: char where
  "delimiter = CHR '',''"

definition quotechar :: char where
  "quotechar = CHR 0x22"

definition field_limit :: nat where
  "field_limit = 131072"

datatype parser_state =
    START_RECORD | START_FIELD | IN_FIELD | IN_QUOTED_FIELD | QUOTE_IN_QUOTED_FIELD | EAT_CRNL

record reader =
  state :: parser_state
  row_fields :: "string list"
  field :: string

definition parse_reset :: reader where
  "parse_reset = \<lparr>state = START_RECORD, row_fields = [], field = []\<rparr>"

definition parse_save_field :: "reader \<Rightarrow> reader" where
  "parse_save_field r = r\<lparr>row_fields := row_fields r @ [field r], field := []\<rparr>"

definition parse_add_char :: "reader \<Rightarrow> char \<Rightarrow> error + reader" where
  "parse_add_char r c =
     (if length (field r) \<ge> field_limit then Inl CsvError
      else Inr (r\<lparr>field := field r @ [c]\<rparr>))"

text \<open>
  One step of the parser; \<open>None\<close> is the end-of-line mark the reader feeds after the
  last character of every line. \<open>start_field\<close> is the case \<^verbatim>\<open>START_FIELD\<close>, which
  \<^verbatim>\<open>START_RECORD\<close> falls through to.
\<close>

definition start_field :: "reader \<Rightarrow> char option \<Rightarrow> error + reader" where
  "start_field r c =
     (case c of
        None \<Rightarrow> Inr ((parse_save_field r)\<lparr>state := START_RECORD\<rparr>)
      | Some ch \<Rightarrow>
          if ch = LF \<or> ch = CR then Inr ((parse_save_field r)\<lparr>state := EAT_CRNL\<rparr>)
          else if ch = quotechar then Inr (r\<lparr>state := IN_QUOTED_FIELD\<rparr>)
          else if ch = delimiter then Inr (parse_save_field r)
          else map_sum id (\<lambda>r'. r'\<lparr>state := IN_FIELD\<rparr>) (parse_add_char r ch))"

definition parse_process_char :: "reader \<Rightarrow> char option \<Rightarrow> error + reader" where
  "parse_process_char r c =
     (case state r of
        START_RECORD \<Rightarrow>
          (if c = None then Inr r
           else if c = Some LF \<or> c = Some CR then Inr (r\<lparr>state := EAT_CRNL\<rparr>)
           else start_field (r\<lparr>state := START_FIELD\<rparr>) c)
      | START_FIELD \<Rightarrow> start_field r c
      | IN_FIELD \<Rightarrow>
          (case c of
             None \<Rightarrow> Inr ((parse_save_field r)\<lparr>state := START_RECORD\<rparr>)
           | Some ch \<Rightarrow>
               if ch = LF \<or> ch = CR then Inr ((parse_save_field r)\<lparr>state := EAT_CRNL\<rparr>)
               else if ch = delimiter then Inr ((parse_save_field r)\<lparr>state := START_FIELD\<rparr>)
               else parse_add_char r ch)
      | IN_QUOTED_FIELD \<Rightarrow>
          (case c of
             None \<Rightarrow> Inr r
           | Some ch \<Rightarrow>
               if ch = quotechar then Inr (r\<lparr>state := QUOTE_IN_QUOTED_FIELD\<rparr>)
               else parse_add_char r ch)
      | QUOTE_IN_QUOTED_FIELD \<Rightarrow>
          (case c of
             None \<Rightarrow> Inr ((parse_save_field r)\<lparr>state := START_RECORD\<rparr>)
           | Some ch \<Rightarrow>
               if ch = quotechar
               then map_sum id (\<lambda>r'. r'\<lparr>state := IN_QUOTED_FIELD\<rparr>) (parse_add_char r ch)
               else if ch = delimiter then Inr ((parse_save_field r)\<lparr>state := START_FIELD\<rparr>)
               else if ch = LF \<or> ch = CR then Inr ((parse_save_field r)\<lparr>state := EAT_CRNL\<rparr>)
               else map_sum id (\<lambda>r'. r'\<lparr>state := IN_FIELD\<rparr>) (parse_add_char r ch))
      | EAT_CRNL \<Rightarrow>
          (case c of
             None \<Rightarrow> Inr (r\<lparr>state := START_RECORD\<rparr>)
           | Some ch \<Rightarrow> if ch = LF \<or> ch = CR then Inr r else Inl CsvError))"

text \<open>The characters of one line, in order.\<close>

fun parse_line :: "reader \<Rightarrow> string \<Rightarrow> error + reader" where
  "parse_line r [] = Inr r"
| "parse_line r (c # cs) =
     (case parse_process_char r (Some c) of
        Inl e \<Rightarrow> Inl e
      | Inr r' \<Rightarrow> parse_line r' cs)"

text \<open>
  All the rows of the reader, \<^verbatim>\<open>Reader_iternext\<close> called until the lines run out: a
  line is parsed and closed by the end-of-line mark; back in \<^verbatim>\<open>START_RECORD\<close> the row
  is complete and the parser is reset, otherwise the row goes on with the next line.
  When the lines run out inside a row, the row ends there. An error ends the reading.
\<close>

fun reader_rows :: "reader \<Rightarrow> string list list \<Rightarrow> string list \<Rightarrow> error + string list list" where
  "reader_rows r acc [] =
     Inr (if field r \<noteq> [] \<or> state r = IN_QUOTED_FIELD
          then acc @ [row_fields (parse_save_field r)] else acc)"
| "reader_rows r acc (line # lines) =
     (case parse_line r line of
        Inl e \<Rightarrow> Inl e
      | Inr r1 \<Rightarrow>
          (case parse_process_char r1 None of
             Inl e \<Rightarrow> Inl e
           | Inr r2 \<Rightarrow>
               if state r2 = START_RECORD
               then reader_rows parse_reset (acc @ [row_fields r2]) lines
               else reader_rows r2 acc lines))"

definition csv_reader :: "string list \<Rightarrow> error + string list list" where
  "csv_reader lines = reader_rows parse_reset [] lines"

text \<open>
  \<^verbatim>\<open>csv.DictReader\<close>: the first row gives the field names; every later row that is not
  empty becomes \<^verbatim>\<open>dict(zip(fieldnames, row))\<close>, surplus cells go as a list under the key
  \<^verbatim>\<open>None\<close> and missing cells are \<^verbatim>\<open>None\<close>.
\<close>

definition dict_zip :: "string list \<Rightarrow> string list \<Rightarrow> pydict" where
  "dict_zip fieldnames row =
     fold (\<lambda>(k, v) d. dict_set (Some k) (PyStr v) d) (zip fieldnames row) []"

definition dict_row :: "string list \<Rightarrow> string list \<Rightarrow> pydict" where
  "dict_row fieldnames row =
     (let d = dict_zip fieldnames row;
          lf = length fieldnames;
          lr = length row
      in if lf < lr then dict_set None (PyList (map PyStr (drop lf row))) d
         else if lf > lr then fold (\<lambda>key d. dict_set (Some key) PyNone d) (drop lr fieldnames) d
         else d)"

definition dict_reader :: "string list list \<Rightarrow> dataset" where
  "dict_reader rows =
     (case rows of
        [] \<Rightarrow> []
      | fieldnames # rest \<Rightarrow> [dict_row fieldnames row. row \<leftarrow> rest, row \<noteq> []])"

definition read_csv :: "string \<Rightarrow> world \<Rightarrow> (error + dataset) \<times> world" where
  "read_csv file_path w =
     (case open_read file_path w of
        (Inl e, w') \<Rightarrow> (Inl e, w')
      | (Inr content, w') \<Rightarrow>
          (map_sum id dict_reader (csv_reader (file_lines (universal_newlines content))), w'))"

text \<open>
  \<^verbatim>\<open>json.load\<close> is the standard library's decoder and stays a parameter, as does
  \<^verbatim>\<open>repr\<close> of a list or dict: \<open>json_loads\<close> maps the text of a file to the dataset it
  holds or to the exception the decoder raises. A document that is not an array of
  objects is outside the data model.
\<close>

record runtime =
  json_loads :: "string \<Rightarrow> error + dataset"
  repr_of :: "pyvalue \<Rightarrow> string"

definition read_json :: "runtime \<Rightarrow> string \<Rightarrow> world \<Rightarrow> (error + dataset) \<times> world" where
  "read_json rt file_path w =
     (case open_read file_path w of
        (Inl e, w') \<Rightarrow> (Inl e, w')
      | (Inr content, w') \<Rightarrow> (json_loads rt (universal_newlines content), w'))"

section \<open>The CSV writer\<close>

text \<open>\<^verbatim>\<open>str\<close> of an integer: its decimal digits, with a sign when negative.\<close>

fun nat_digits :: "nat \<Rightarrow> string" where
  "nat_digits n =
     (if n < 10 then [char_of (48 + n)]
      else nat_digits (n div 10) @ [char_of (48 + n mod 10)])"

definition int_str :: "int \<Rightarrow> string" where
  "int_str i = (if i < 0 then CHR ''-'' # nat_digits (nat (- i)) else nat_digits (nat i))"

text \<open>
  The text \<^verbatim>\<open>csv.writer\<close> writes for a cell: a string as it is, \<^verbatim>\<open>None\<close> as the empty
  string, anything else through \<^verbatim>\<open>str\<close>.
\<close>

fun cell_text :: "runtime \<Rightarrow> pyvalue \<Rightarrow> string" where
  "cell_text rt (PyStr s) = s"
| "cell_text rt PyNone = []"
| "cell_text rt (PyBool b) = (if b then ''True'' else ''False'')"
| "cell_text rt (PyInt i) = int_str i"
| "cell_text rt v = repr_of rt v"

text \<open>
  \<^verbatim>\<open>join_append\<close> under \<^verbatim>\<open>QUOTE_MINIMAL\<close>: a field is quoted when it holds the
  delimiter, the quote character or a character of the line terminator \<^verbatim>\<open>\r\n\<close>; the
  quote character is doubled.
\<close>

definition needs_quote :: "char \<Rightarrow> bool" where
  "needs_quote c = (c = delimiter \<or> c = quotechar \<or> c = CR \<or> c = LF)"

fun join_append_data :: "string \<Rightarrow> string" where
  "join_append_data [] = []"
| "join_append_data (c # cs) =
     (if c = quotechar then quotechar # c # join_append_data cs
      else c # join_append_data cs)"

definition join_append :: "string \<Rightarrow> bool \<Rightarrow> string" where
  "join_append fld quoted =
     (if quoted \<or> list_ex needs_quote fld
      then [quotechar] @ join_append_data fld @ [quotechar]
      else join_append_data fld)"

fun join_fields :: "string list \<Rightarrow> string" where
  "join_fields [] = []"
| "join_fields [fld] = join_append fld False"
| "join_fields (fld # flds) = join_append fld False @ [delimiter] @ join_fields flds"

text \<open>
  \<^verbatim>\<open>writerow\<close>: the joined fields and the line terminator; a row of one empty field
  is written as a quoted empty field.
\<close>

definition writerow :: "string list \<Rightarrow> string" where
  "writerow flds =
     (let rec = join_fields flds;
          rec = (if flds \<noteq> [] \<and> rec = [] then join_append [] True else rec)
      in rec @ [CR, LF])"

text \<open>
  \<^verbatim>\<open>DictWriter._dict_to_list\<close> with the defaults \<^verbatim>\<open>extrasaction='raise'\<close> and
  \<^verbatim>\<open>restval=''\<close>: a key outside the field names raises \<^verbatim>\<open>ValueError\<close>; the cells are
  the values in the order of the field names, the empty string for a missing key.
\<close>

definition dict_to_list :: "pykey list \<Rightarrow> pydict \<Rightarrow> error + pyvalue list" where
  "dict_to_list fieldnames rowdict =
     (let wrong_fields = [k \<leftarrow> keys rowdict. k \<notin> set fieldnames]
      in if wrong_fields \<noteq> [] then Inl ValueError
         else Inr [case map_of rowdict key of None \<Rightarrow> PyStr [] | Some v \<Rightarrow> v. key \<leftarrow> fieldnames])"

text \<open>\<^verbatim>\<open>writeheader\<close>: the row \<^verbatim>\<open>dict(zip(fieldnames, fieldnames))\<close>.\<close>

fun key_value :: "pykey \<Rightarrow> pyvalue" where
  "key_value None = PyNone"
| "key_value (Some s) = PyStr s"

definition writeheader :: "runtime \<Rightarrow> pykey list \<Rightarrow> string" where
  "writeheader rt fieldnames = writerow (map (cell_text rt \<circ> key_value) fieldnames)"

text \<open>
  \<^verbatim>\<open>writerows\<close>: row after row goes to the file; the first row that raises ends the
  writing, with the rows before it written.
\<close>

fun writerows :: "runtime \<Rightarrow> pykey list \<Rightarrow> dataset \<Rightarrow> string \<Rightarrow> world \<Rightarrow> error option \<times> world" where
  "writerows rt fieldnames [] file_path w = (None, w)"
| "writerows rt fieldnames (rowdict # rowdicts) file_path w =
     (case dict_to_list fieldnames rowdict of
        Inl e \<Rightarrow> (Some e, w)
      | Inr cells \<Rightarrow>
          writerows rt fieldnames rowdicts file_path
            (file_write file_path (writerow (map (cell_text rt) cells)) w))"

definition write_csv :: "runtime \<Rightarrow> dataset \<Rightarrow> string \<Rightarrow> world \<Rightarrow> error option \<times> world" where
  "write_csv rt data file_path w =
     (case data of
        [] \<Rightarrow> (None, w)
      | first # _ \<Rightarrow>
          (case open_write file_path w of
             (Some e, w') \<Rightarrow> (Some e, w')
           | (None, w') \<Rightarrow>
               (let fieldnames = keys first;
                    w'' = file_write file_path (writeheader rt fieldnames) w'
                in writerows rt fieldnames data file_path w'')))"

section \<open>The JSON writer\<close>

text \<open>
  \<^verbatim>\<open>json.dump(data, f, indent=2)\<close>: strings are escaped to ASCII, items are separated by
  a comma and a new line indented by two spaces per level, a key is followed by a
  colon and a space, and an empty list or dict is \<^verbatim>\<open>[]\<close> or \<^verbatim>\<open>{}\<close>.
\<close>

definition hex_digit :: "nat \<Rightarrow> char" where
  "hex_digit n = (if n < 10 then char_of (48 + n) else char_of (87 + n))"

definition escape_char :: "char \<Rightarrow> string" where
  "escape_char c =
     (let n = (of_char c :: nat)
      in if c = CHR 0x22 then [CHR 0x5C, CHR 0x22]
         else if c = CHR 0x5C then [CHR 0x5C, CHR 0x5C]
         else if c = LF then [CHR 0x5C, CHR ''n'']
         else if c = CR then [CHR 0x5C, CHR ''r'']
         else if c = CHR 0x09 then [CHR 0x5C, CHR ''t'']
         else if c = CHR 0x08 then [CHR 0x5C, CHR ''b'']
         else if c = CHR 0x0C then [CHR 0x5C, CHR ''f'']
         else if 32 \<le> n \<and> n \<le> 126 then [c]
         else [CHR 0x5C, CHR ''u'', CHR ''0'', CHR ''0'', hex_digit (n div 16), hex_digit (n mod 16)])"

definition encode_basestring_ascii :: "string \<Rightarrow> string" where
  "encode_basestring_ascii s = [CHR 0x22] @ concat (map escape_char s) @ [CHR 0x22]"

definition newline_indent :: "nat \<Rightarrow> string" where
  "newline_indent level = LF # replicate (2 * level) CHR '' ''"

fun join_chunks :: "string \<Rightarrow> string list \<Rightarrow> string" where
  "join_chunks sep [] = []"
| "join_chunks sep [x] = x"
| "join_chunks sep (x # xs) = x @ sep @ join_chunks sep xs"

definition encode_key :: "pykey \<Rightarrow> string" where
  "encode_key k = encode_basestring_ascii (case k of None \<Rightarrow> ''null'' | Some s \<Rightarrow> s)"

fun iterencode :: "nat \<Rightarrow> pyvalue \<Rightarrow> string"
  and iterencode_list :: "nat \<Rightarrow> pyvalue list \<Rightarrow> string list"
  and iterencode_dict :: "nat \<Rightarrow> (pykey \<times> pyvalue) list \<Rightarrow> string list"
where
  "iterencode level PyNone = ''null''"
| "iterencode level (PyBool b) = (if b then ''true'' else ''false'')"
| "iterencode level (PyInt i) = int_str i"
| "iterencode level (PyStr s) = encode_basestring_ascii s"
| "iterencode level (PyList vs) =
     (if vs = [] then ''[]''
      else ''['' @ newline_indent (Suc level)
           @ join_chunks ('','' @ newline_indent (Suc level)) (iterencode_list (Suc level) vs)
           @ newline_indent level @ '']'')"
| "iterencode level (PyDict kvs) =
     (if kvs = [] then ''{}''
      else ''{'' @ newline_indent (Suc level)
           @ join_chunks ('','' @ newline_indent (Suc level)) (iterencode_dict (Suc level) kvs)
           @ newline_indent level @ ''}'')"
| "iterencode_list level [] = []"
| "iterencode_list level (v # vs) = iterencode level v # iterencode_list level vs"
| "iterencode_dict level [] = []"
| "iterencode_dict level ((k, v) # kvs) =
     (encode_key k @ '': '' @ iterencode level v) # iterencode_dict level kvs"

text \<open>
  \<^verbatim>\<open>write_json\<close>: the file is opened in text mode, where \<^verbatim>\<open>\n\<close> is written as the
  platform's line separator; on POSIX that is \<^verbatim>\<open>\n\<close> itself.
\<close>

definition write_json :: "dataset \<Rightarrow> string \<Rightarrow> world \<Rightarrow> error option \<times> world" where
  "write_json data file_path w =
     (case open_write file_path w of
        (Some e, w') \<Rightarrow> (Some e, w')
      | (None, w') \<Rightarrow>
          (None, file_write file_path (iterencode 0 (PyList (map PyDict data))) w'))"

section \<open>The command line program\<close>

text \<open>
  \<^verbatim>\<open>os.path.splitext\<close> of \<^verbatim>\<open>posixpath\<close>: the extension starts at the last dot of the
  path, when that dot comes after the last slash and after a character of the file
  name that is not a dot.
\<close>

definition rfind :: "char \<Rightarrow> string \<Rightarrow> int" where
  "rfind c p =
     (if c \<in> set p then int (length p) - 1 - int (length (takeWhile (\<lambda>x. x \<noteq> c) (rev p)))
      else - 1)"

function splitext_loop :: "string \<Rightarrow> nat \<Rightarrow> nat \<Rightarrow> string \<times> string" where
  "splitext_loop p filenameIndex dotIndex =
     (if filenameIndex < dotIndex
      then (if take 1 (drop filenameIndex p) \<noteq> ''.''
            then (take dotIndex p, drop dotIndex p)
            else splitext_loop p (Suc filenameIndex) dotIndex)
      else (p, []))"
  by pat_completeness auto
termination
  by (relation "measure (\<lambda>(p, filenameIndex, dotIndex). dotIndex - filenameIndex)") auto

definition splitext :: "string \<Rightarrow> string \<times> string" where
  "splitext p =
     (let sepIndex = rfind CHR ''/'' p;
          dotIndex = rfind CHR ''.'' p
      in if dotIndex > sepIndex
         then splitext_loop p (nat (sepIndex + 1)) (nat dotIndex)
         else (p, []))"

text \<open>\<^verbatim>\<open>str.lower\<close> on code points below 256.\<close>

definition lower_char :: "char \<Rightarrow> char" where
  "lower_char c =
     (let n = (of_char c :: nat)
      in if (65 \<le> n \<and> n \<le> 90) \<or> (192 \<le> n \<and> n \<le> 222 \<and> n \<noteq> 215)
         then char_of (n + 32) else c)"

definition lower :: "string \<Rightarrow> string" where
  "lower s = map lower_char s"

definition print_stderr :: "message \<Rightarrow> world \<Rightarrow> world" where
  "print_stderr m w = w\<lparr>stderr := stderr w @ [m]\<rparr>"

text \<open>
  \<^verbatim>\<open>main\<close>, from the parsed arguments to the exit code. \<^verbatim>\<open>sys.exit(1)\<close> raises
  \<^verbatim>\<open>SystemExit\<close>, which \<^verbatim>\<open>except Exception\<close> does not catch: the program ends there
  with code 1.
\<close>

definition main :: "runtime \<Rightarrow> args \<Rightarrow> world \<Rightarrow> nat \<times> world" where
  "main rt a w =
     (let input_ext = lower (snd (splitext (input_path a)));
          output_ext = lower (snd (splitext (output_path a)))
      in case (if input_ext = ''.csv'' then map_prod Some id (read_csv (input_path a) w)
               else if input_ext = ''.json'' then map_prod Some id (read_json rt (input_path a) w)
               else (None, print_stderr (UnsupportedInput input_ext) w)) of
           (None, w1) \<Rightarrow> (1, w1)
         | (Some (Inl e), w1) \<Rightarrow> (1, print_stderr (ReadFailed e) w1)
         | (Some (Inr data), w1) \<Rightarrow>
             (let operations = operations_of a;
                  (processed_data, w2) = process_data data operations w1
              in if output_ext = ''.csv''
                 then (case write_csv rt processed_data (output_path a) w2 of
                         (Some e, w3) \<Rightarrow> (1, print_stderr (WriteFailed e) w3)
                       | (None, w3) \<Rightarrow> (0, w3))
                 else if output_ext = ''.json''
                 then (case write_json processed_data (output_path a) w2 of
                         (Some e, w3) \<Rightarrow> (1, print_stderr (WriteFailed e) w3)
                       | (None, w3) \<Rightarrow> (0, w3))
                 else (1, print_stderr (UnsupportedOutput output_ext) w2)))"

section \<open>Auxiliary notions for the statements\<close>

text \<open>
  The scenario of the specification: the input file and the JSON text that
  \<^verbatim>\<open>json.dump\<close> with \<^verbatim>\<open>indent=2\<close> gives for the two filtered records.
\<close>

abbreviation DQ :: char where "DQ \<equiv> CHR 0x22"

definition scenario_csv :: string where
  "scenario_csv = ''name,age,city'' @ [LF] @ ''Alice,,NYC'' @ [LF] @ ''Bob,30,'' @ [LF]"

definition scenario_json :: string where
  "scenario_json = concat
     [''['', [LF],
      ''  {'', [LF],
      ''    '', [DQ], ''name'', [DQ], '': '', [DQ], ''Alice'', [DQ], '','', [LF],
      ''    '', [DQ], ''city'', [DQ], '': '', [DQ], ''NYC'', [DQ], [LF],
      ''  },'', [LF],
      ''  {'', [LF],
      ''    '', [DQ], ''name'', [DQ], '': '', [DQ], ''Bob'', [DQ], '','', [LF],
      ''    '', [DQ], ''age'', [DQ], '': '', [DQ], ''30'', [DQ], [LF],
      ''  }'', [LF],
      '']'']"






text \<open>
  The records the round trip is stated for. A text survives the trip when it has no
  carriage return and fits the field size limit. A record survives it under a header
  when it is a dict (no key twice) with exactly the header's keys, all keys strings and
  all values strings, each of them such a text.
\<close>

definition csv_text :: "string \<Rightarrow> bool" where
  "csv_text s = (CR \<notin> set s \<and> length s \<le> field_limit)"

definition round_trips :: "pykey list \<Rightarrow> pydict \<Rightarrow> bool" where
  "round_trips fieldnames r =
     (wf_dict r \<and> set (keys r) = set fieldnames
      \<and> list_all (\<lambda>(k, v). (case k of None \<Rightarrow> False | Some s \<Rightarrow> csv_text s)
                          \<and> (case v of PyStr s \<Rightarrow> csv_text s | _ \<Rightarrow> False)) r)"


text \<open>The value a record gives for a key, as \<^verbatim>\<open>rowdict.get(key, '')\<close>.\<close>

definition get_cell :: "pydict \<Rightarrow> pykey \<Rightarrow> pyvalue" where
  "get_cell r key = (case map_of r key of None \<Rightarrow> PyStr [] | Some v \<Rightarrow> v)"


section \<open>Properties of the transformer\<close>

lemma stamp_items_map:
  "stamp_items ts ds = map (dict_set (Some ''timestamp'') (PyStr ts)) ds"
  by (induction ds) simp_all

lemma map_of_dict_set_same: "map_of (dict_set k v d) k = Some v"
  by (induction d) auto

lemma filter_item_idem: "filter_item (filter_item d) = filter_item d"
  by (simp add: filter_item_def)

text \<open>
  C5. Applying \<^verbatim>\<open>filter_empty\<close> to the result of \<^verbatim>\<open>filter_empty\<close> gives the same
  dataset as applying it once, for every dataset.
\<close>

theorem filter_empty_idempotent:
  "fst (process_data (fst (process_data data [''filter_empty''] w)) [''filter_empty''] w')
     = fst (process_data data [''filter_empty''] w)"
  by (simp add: process_data_def filter_item_idem)


text \<open>
  C9. The transformer keeps the number and the order of the records: the i-th record
  of the result is the i-th record of the input, filtered when \<^verbatim>\<open>filter_empty\<close> is
  requested and then stamped when \<^verbatim>\<open>add_timestamp\<close> is requested. With neither
  operation requested, and so with no operation at all, the dataset and the world come
  back unchanged.
\<close>

theorem process_data_keeps_records:
  "length (fst (process_data data ops w)) = length data
   \<and> fst (process_data data ops w) =
       map (\<lambda>item.
             (if ''add_timestamp'' \<in> set ops
              then dict_set (Some ''timestamp'') (PyStr (clock w (ticks w))) else id)
               ((if ''filter_empty'' \<in> set ops then filter_item else id) item)) data
   \<and> (''filter_empty'' \<notin> set ops \<and> ''add_timestamp'' \<notin> set ops
        \<longrightarrow> process_data data ops w = (data, w))
   \<and> process_data data [] w = (data, w)"
  by (simp add: process_data_def now_isoformat_def stamp_items_map)

theorem process_data_keeps_records_witness:
  "process_data [[(Some ''a'', PyStr ''x'')], [(Some ''b'', PyInt 0)]] [''noop'']
     \<lparr>files = Map.empty, writable = (\<lambda>p. True), stderr = [], io_log = [],
      clock = (\<lambda>n. ''T''), ticks = 0\<rparr>
   = ([[(Some ''a'', PyStr ''x'')], [(Some ''b'', PyInt 0)]],
      \<lparr>files = Map.empty, writable = (\<lambda>p. True), stderr = [], io_log = [],
       clock = (\<lambda>n. ''T''), ticks = 0\<rparr>)"
  using process_data_keeps_records
    [of "[[(Some ''a'', PyStr ''x'')], [(Some ''b'', PyInt 0)]]" "[''noop'']"
        "\<lparr>files = Map.empty, writable = (\<lambda>p. True), stderr = [], io_log = [],
          clock = (\<lambda>n. ''T''), ticks = 0\<rparr>"]
  by simp



text \<open>
  C3. When \<^verbatim>\<open>add_timestamp\<close> is requested, the clock is read exactly once, whatever
  the number of records, and every record of the result holds that one reading under
  the key \<^verbatim>\<open>timestamp\<close>.
\<close>

theorem add_timestamp_one_reading:
  assumes "''add_timestamp'' \<in> set ops"
  shows "snd (process_data data ops w) = w\<lparr>ticks := Suc (ticks w)\<rparr>
         \<and> length (fst (process_data data ops w)) = length data
         \<and> list_all (\<lambda>item. map_of item (Some ''timestamp'') = Some (PyStr (clock w (ticks w))))
              (fst (process_data data ops w))"
  using assms
  by (simp add: process_data_def now_isoformat_def stamp_items_map list_all_iff
      map_of_dict_set_same)

theorem add_timestamp_one_reading_witness:
  "process_data [[(Some ''a'', PyStr ''x'')], [], [(Some ''timestamp'', PyInt 7)]]
     [''add_timestamp'']
     \<lparr>files = Map.empty, writable = (\<lambda>p. True), stderr = [], io_log = [],
      clock = (\<lambda>n. if n = 0 then ''2024-01-01T00:00:00'' else ''later''), ticks = 0\<rparr>
   = ([[(Some ''a'', PyStr ''x''), (Some ''timestamp'', PyStr ''2024-01-01T00:00:00'')],
       [(Some ''timestamp'', PyStr ''2024-01-01T00:00:00'')],
       [(Some ''timestamp'', PyStr ''2024-01-01T00:00:00'')]],
      \<lparr>files = Map.empty, writable = (\<lambda>p. True), stderr = [], io_log = [],
       clock = (\<lambda>n. if n = 0 then ''2024-01-01T00:00:00'' else ''later''), ticks = Suc 0\<rparr>)"
proof -
  let ?w = "\<lparr>files = Map.empty, writable = (\<lambda>p. True), stderr = [], io_log = [],
      clock = (\<lambda>n. if n = 0 then ''2024-01-01T00:00:00'' else ''later''), ticks = 0\<rparr>"
  let ?d = "[[(Some ''a'', PyStr ''x'')], [], [(Some ''timestamp'', PyInt 7)]]"
  have mem: "''add_timestamp'' \<in> set [''add_timestamp'']" by simp
  have "fst (process_data ?d [''add_timestamp''] ?w)
          = [[(Some ''a'', PyStr ''x''), (Some ''timestamp'', PyStr ''2024-01-01T00:00:00'')],
             [(Some ''timestamp'', PyStr ''2024-01-01T00:00:00'')],
             [(Some ''timestamp'', PyStr ''2024-01-01T00:00:00'')]]"
    by (simp add: process_data_def now_isoformat_def)
  moreover have "snd (process_data ?d [''add_timestamp''] ?w) = ?w\<lparr>ticks := Suc (ticks ?w)\<rparr>"
    using add_timestamp_one_reading [OF mem, of ?d ?w] by blast
  ultimately show ?thesis by (simp add: prod_eq_iff)
qed

text \<open>
  C4. When both operations are requested, in whatever order and however often the two
  names occur in the list, the records are filtered first and stamped second: the
  result is the one \<^verbatim>\<open>main\<close> gets from its own list, and every record holds the
  clock's reading under \<^verbatim>\<open>timestamp\<close>, also when that reading is the empty string.
\<close>

theorem filter_then_timestamp:
  assumes "''filter_empty'' \<in> set ops" and "''add_timestamp'' \<in> set ops"
  shows "fst (process_data data ops w)
           = stamp_items (clock w (ticks w)) (map filter_item data)
         \<and> process_data data ops w
           = process_data data
               (operations_of \<lparr>input_path = i, output_path = out, filter_empty = True, add_timestamp = True\<rparr>) w
         \<and> list_all (\<lambda>item. map_of item (Some ''timestamp'') = Some (PyStr (clock w (ticks w))))
              (fst (process_data data ops w))"
  using assms
  by (simp add: process_data_def now_isoformat_def operations_of_def stamp_items_map
      list_all_iff map_of_dict_set_same)

theorem filter_then_timestamp_witness:
  "fst (process_data [[(Some ''a'', PyStr []), (Some ''b'', PyStr ''x'')]]
          [''add_timestamp'', ''filter_empty'']
          \<lparr>files = Map.empty, writable = (\<lambda>p. True), stderr = [], io_log = [],
           clock = (\<lambda>n. []), ticks = 0\<rparr>)
   = [[(Some ''b'', PyStr ''x''), (Some ''timestamp'', PyStr [])]]"
proof -
  let ?w = "\<lparr>files = Map.empty, writable = (\<lambda>p. True), stderr = [], io_log = [],
           clock = (\<lambda>n. []), ticks = 0\<rparr>"
  let ?d = "[[(Some ''a'', PyStr []), (Some ''b'', PyStr ''x'')]]"
  have a: "''filter_empty'' \<in> set [''add_timestamp'', ''filter_empty'']" by simp
  have b: "''add_timestamp'' \<in> set [''add_timestamp'', ''filter_empty'']" by simp
  have "fst (process_data ?d [''add_timestamp'', ''filter_empty''] ?w)
          = stamp_items (clock ?w (ticks ?w)) (map filter_item ?d)"
    using filter_then_timestamp [OF a b, of ?d ?w] by blast
  then show ?thesis by (simp add: filter_item_def)
qed

section \<open>Properties of the program\<close>

lemmas csv_reader_defs =
  csv_reader_def parse_reset_def parse_process_char_def start_field_def parse_add_char_def
  parse_save_field_def field_limit_def delimiter_def quotechar_def dict_reader_def dict_row_def
  dict_zip_def

lemma scenario_read:
  "read_csv ''in.csv''
     \<lparr>files = [''in.csv'' \<mapsto> scenario_csv], writable = wr, stderr = [], io_log = [],
      clock = c, ticks = t\<rparr>
   = (Inr [[(Some ''name'', PyStr ''Alice''), (Some ''age'', PyStr []), (Some ''city'', PyStr ''NYC'')],
           [(Some ''name'', PyStr ''Bob''), (Some ''age'', PyStr ''30''), (Some ''city'', PyStr [])]],
      \<lparr>files = [''in.csv'' \<mapsto> scenario_csv], writable = wr, stderr = [],
       io_log = [OpenRead ''in.csv''], clock = c, ticks = t\<rparr>)"
  by (simp add: read_csv_def open_read_def scenario_csv_def csv_reader_defs)

lemma scenario_encode:
  "iterencode 0 (PyList
      [PyDict [(Some ''name'', PyStr ''Alice''), (Some ''city'', PyStr ''NYC'')],
       PyDict [(Some ''name'', PyStr ''Bob''), (Some ''age'', PyStr ''30'')]]) = scenario_json"
  by (simp add: scenario_json_def newline_indent_def encode_key_def encode_basestring_ascii_def
      escape_char_def numeral_2_eq_2 numeral_3_eq_3 eval_nat_numeral)

lemma ext_in_csv: "lower (snd (splitext ''in.csv'')) = ''.csv''"
  by code_simp

lemma ext_out_json: "lower (snd (splitext ''out.json'')) = ''.json''"
  by code_simp


text \<open>
  C1. The scenario: the file \<^verbatim>\<open>in.csv\<close> holds the header \<^verbatim>\<open>name,age,city\<close> and the
  rows \<^verbatim>\<open>Alice,,NYC\<close> and \<^verbatim>\<open>Bob,30,\<close>. Reading it gives two records whose values are
  all strings; \<^verbatim>\<open>filter_empty\<close> alone leaves \<^verbatim>\<open>name\<close> and \<^verbatim>\<open>city\<close> in the first and
  \<^verbatim>\<open>name\<close> and \<^verbatim>\<open>age\<close> in the second, the empty cells being absent; and the program
  ends with code 0, having written to \<^verbatim>\<open>out.json\<close> the JSON array of exactly these two
  objects, with the values as JSON strings.
\<close>

theorem concrete_scenario:
  "fst (read_csv ''in.csv''
     \<lparr>files = [''in.csv'' \<mapsto> scenario_csv], writable = (\<lambda>p. True), stderr = [], io_log = [],
      clock = c, ticks = t\<rparr>)
     = Inr [[(Some ''name'', PyStr ''Alice''), (Some ''age'', PyStr []), (Some ''city'', PyStr ''NYC'')],
            [(Some ''name'', PyStr ''Bob''), (Some ''age'', PyStr ''30''), (Some ''city'', PyStr [])]]
   \<and> fst (process_data
        [[(Some ''name'', PyStr ''Alice''), (Some ''age'', PyStr []), (Some ''city'', PyStr ''NYC'')],
         [(Some ''name'', PyStr ''Bob''), (Some ''age'', PyStr ''30''), (Some ''city'', PyStr [])]]
        [''filter_empty''] w)
     = [[(Some ''name'', PyStr ''Alice''), (Some ''city'', PyStr ''NYC'')],
        [(Some ''name'', PyStr ''Bob''), (Some ''age'', PyStr ''30'')]]
   \<and> iterencode 0 (PyList (map PyDict
        [[(Some ''name'', PyStr ''Alice''), (Some ''city'', PyStr ''NYC'')],
         [(Some ''name'', PyStr ''Bob''), (Some ''age'', PyStr ''30'')]])) = scenario_json
   \<and> main rt
        \<lparr>input_path = ''in.csv'', output_path = ''out.json'', filter_empty = True,
         add_timestamp = False\<rparr>
        \<lparr>files = [''in.csv'' \<mapsto> scenario_csv], writable = (\<lambda>p. True), stderr = [], io_log = [],
         clock = c, ticks = t\<rparr>
     = (0, \<lparr>files = [''in.csv'' \<mapsto> scenario_csv, ''out.json'' \<mapsto> scenario_json],
            writable = (\<lambda>p. True), stderr = [],
            io_log = [OpenRead ''in.csv'', OpenWrite ''out.json''], clock = c, ticks = t\<rparr>)"
proof (intro conjI)
  show "fst (read_csv ''in.csv''
     \<lparr>files = [''in.csv'' \<mapsto> scenario_csv], writable = (\<lambda>p. True), stderr = [], io_log = [],
      clock = c, ticks = t\<rparr>)
     = Inr [[(Some ''name'', PyStr ''Alice''), (Some ''age'', PyStr []), (Some ''city'', PyStr ''NYC'')],
            [(Some ''name'', PyStr ''Bob''), (Some ''age'', PyStr ''30''), (Some ''city'', PyStr [])]]"
    by (simp add: scenario_read)
  show "fst (process_data
        [[(Some ''name'', PyStr ''Alice''), (Some ''age'', PyStr []), (Some ''city'', PyStr ''NYC'')],
         [(Some ''name'', PyStr ''Bob''), (Some ''age'', PyStr ''30''), (Some ''city'', PyStr [])]]
        [''filter_empty''] w)
     = [[(Some ''name'', PyStr ''Alice''), (Some ''city'', PyStr ''NYC'')],
        [(Some ''name'', PyStr ''Bob''), (Some ''age'', PyStr ''30'')]]"
    by (simp add: process_data_def filter_item_def)
  show "iterencode 0 (PyList (map PyDict
        [[(Some ''name'', PyStr ''Alice''), (Some ''city'', PyStr ''NYC'')],
         [(Some ''name'', PyStr ''Bob''), (Some ''age'', PyStr ''30'')]])) = scenario_json"
    using scenario_encode by simp
  show "main rt
        \<lparr>input_path = ''in.csv'', output_path = ''out.json'', filter_empty = True,
         add_timestamp = False\<rparr>
        \<lparr>files = [''in.csv'' \<mapsto> scenario_csv], writable = (\<lambda>p. True), stderr = [], io_log = [],
         clock = c, ticks = t\<rparr>
     = (0, \<lparr>files = [''in.csv'' \<mapsto> scenario_csv, ''out.json'' \<mapsto> scenario_json],
            writable = (\<lambda>p. True), stderr = [],
            io_log = [OpenRead ''in.csv'', OpenWrite ''out.json''], clock = c, ticks = t\<rparr>)"
    by (simp add: main_def ext_in_csv ext_out_json scenario_read operations_of_def
        process_data_def filter_item_def write_json_def open_write_def file_write_def
        scenario_encode Let_def del: iterencode.simps)
qed

text \<open>
  C8. When the lower-cased extension of the input path is neither \<^verbatim>\<open>.csv\<close> nor
  \<^verbatim>\<open>.json\<close>, the program ends with code 1 and has done nothing but print the
  unsupported-input line with that extension to the error stream: no file was opened,
  and the files, the output path among them, are as they were.
\<close>

theorem unsupported_input_rejected:
  assumes "lower (snd (splitext (input_path a))) \<noteq> ''.csv''"
      and "lower (snd (splitext (input_path a))) \<noteq> ''.json''"
  shows "main rt a w
           = (1, w\<lparr>stderr := stderr w @ [UnsupportedInput (lower (snd (splitext (input_path a))))]\<rparr>)
         \<and> files (snd (main rt a w)) = files w
         \<and> io_log (snd (main rt a w)) = io_log w"
  using assms by (simp add: main_def print_stderr_def Let_def)

theorem unsupported_input_rejected_witness:
  "main \<lparr>json_loads = (\<lambda>s. Inr []), repr_of = (\<lambda>v. [])\<rparr>
     \<lparr>input_path = ''data.txt'', output_path = ''out.json'', filter_empty = False,
      add_timestamp = False\<rparr>
     \<lparr>files = [''data.txt'' \<mapsto> ''[]''], writable = (\<lambda>p. True), stderr = [], io_log = [],
      clock = (\<lambda>n. ''T''), ticks = 0\<rparr>
   = (1, \<lparr>files = [''data.txt'' \<mapsto> ''[]''], writable = (\<lambda>p. True),
          stderr = [UnsupportedInput ''.txt''], io_log = [],
          clock = (\<lambda>n. ''T''), ticks = 0\<rparr>)"
proof -
  let ?a = "\<lparr>input_path = ''data.txt'', output_path = ''out.json'', filter_empty = False,
      add_timestamp = False\<rparr>"
  have e: "lower (snd (splitext (input_path ?a))) = ''.txt''"
    by code_simp
  have 1: "lower (snd (splitext (input_path ?a))) \<noteq> ''.csv''" unfolding e by simp
  have 2: "lower (snd (splitext (input_path ?a))) \<noteq> ''.json''" unfolding e by simp
  show ?thesis using unsupported_input_rejected [OF 1 2] unfolding e by simp
qed

text \<open>
  C7. For the empty dataset, whatever operations are requested, \<^verbatim>\<open>write_csv\<close> returns
  without an error and leaves the world as it is (no file opened, created or written),
  and \<^verbatim>\<open>write_json\<close>, on a path that can be written, leaves the two characters
  \<^verbatim>\<open>[]\<close> as the whole content of the file.
\<close>

theorem empty_dataset_written:
  "write_csv rt (fst (process_data [] ops w)) p w' = (None, w')
   \<and> (writable w' p \<longrightarrow>
        write_json (fst (process_data [] ops w)) p w'
          = (None, w'\<lparr>io_log := io_log w' @ [OpenWrite p], files := (files w')(p \<mapsto> ''[]'')\<rparr>))"
  by (simp add: process_data_def now_isoformat_def write_csv_def write_json_def open_write_def
      file_write_def Let_def split: prod.splits)

theorem empty_dataset_written_witness:
  "write_csv \<lparr>json_loads = (\<lambda>s. Inr []), repr_of = (\<lambda>v. [])\<rparr>
      (fst (process_data [] [''filter_empty'', ''add_timestamp'']
         \<lparr>files = Map.empty, writable = (\<lambda>p. True), stderr = [], io_log = [],
          clock = (\<lambda>n. ''T''), ticks = 0\<rparr>))
      ''out.csv''
      \<lparr>files = Map.empty, writable = (\<lambda>p. True), stderr = [], io_log = [],
       clock = (\<lambda>n. ''T''), ticks = 1\<rparr>
     = (None, \<lparr>files = Map.empty, writable = (\<lambda>p. True), stderr = [], io_log = [],
               clock = (\<lambda>n. ''T''), ticks = 1\<rparr>)
   \<and> write_json
      (fst (process_data [] [''filter_empty'', ''add_timestamp'']
         \<lparr>files = Map.empty, writable = (\<lambda>p. True), stderr = [], io_log = [],
          clock = (\<lambda>n. ''T''), ticks = 0\<rparr>))
      ''out.json''
      \<lparr>files = Map.empty, writable = (\<lambda>p. True), stderr = [], io_log = [],
       clock = (\<lambda>n. ''T''), ticks = 1\<rparr>
     = (None, \<lparr>files = [''out.json'' \<mapsto> ''[]''], writable = (\<lambda>p. True), stderr = [],
               io_log = [OpenWrite ''out.json''], clock = (\<lambda>n. ''T''), ticks = 1\<rparr>)"
  using empty_dataset_written
    [of "\<lparr>json_loads = (\<lambda>s. Inr []), repr_of = (\<lambda>v. [])\<rparr>"
        "[''filter_empty'', ''add_timestamp'']"
        "\<lparr>files = Map.empty, writable = (\<lambda>p. True), stderr = [], io_log = [],
          clock = (\<lambda>n. ''T''), ticks = 0\<rparr>"
        "''out.csv''"
        "\<lparr>files = Map.empty, writable = (\<lambda>p. True), stderr = [], io_log = [],
          clock = (\<lambda>n. ''T''), ticks = 1\<rparr>"]
    empty_dataset_written
    [of "\<lparr>json_loads = (\<lambda>s. Inr []), repr_of = (\<lambda>v. [])\<rparr>"
        "[''filter_empty'', ''add_timestamp'']"
        "\<lparr>files = Map.empty, writable = (\<lambda>p. True), stderr = [], io_log = [],
          clock = (\<lambda>n. ''T''), ticks = 0\<rparr>"
        "''out.json''"
        "\<lparr>files = Map.empty, writable = (\<lambda>p. True), stderr = [], io_log = [],
          clock = (\<lambda>n. ''T''), ticks = 1\<rparr>"]
  by simp

subsection \<open>The CSV writer and records of different shapes\<close>









section \<open>The CSV round trip\<close>

subsection \<open>The reader on the text of a written row\<close>




























subsection \<open>Newline translation\<close>








subsection \<open>From rows back to records\<close>






lemma round_trips_cell:
  assumes rt: "round_trips fn r" and key: "key \<in> set fn"
  shows "\<exists>s. map_of r key = Some (PyStr s) \<and> csv_text s"
proof -
  from rt key have "key \<in> fst ` set r" by (simp add: round_trips_def keys_def)
  then obtain v where kv: "(key, v) \<in> set r" by force
  from rt have "distinct (map fst r)" by (simp add: round_trips_def wf_dict_def keys_def)
  with kv have m: "map_of r key = Some v" by simp
  from rt kv have "case v of PyStr s \<Rightarrow> csv_text s | _ \<Rightarrow> False"
    by (auto simp: round_trips_def list_all_iff)
  then obtain s where "v = PyStr s" and "csv_text s" by (cases v) simp_all
  with m show ?thesis by simp
qed





lemma cells_strings:
  assumes rt: "round_trips fn r"
  shows "map (\<lambda>key. PyStr (cell_text rt (get_cell r key))) fn = map (get_cell r) fn"
proof (rule map_cong [OF refl])
  fix key assume "key \<in> set fn"
  then obtain s where "map_of r key = Some (PyStr s)"
    using round_trips_cell [OF rt] by blast
  then show "PyStr (cell_text rt (get_cell r key)) = get_cell r key"
    by (simp add: get_cell_def)
qed










end
